theory Spec2Isabelle
  imports Main
begin

section \<open>Pass identities, pass objects and command-line options\<close>

text \<open>
  The code under verification is the pass-pipeline builder \<^verbatim>\<open>TargetPassConfig\<close>
  (file \<^verbatim>\<open>Passes.cpp\<close>, stored in the second part of \<^verbatim>\<open>sec_region.h\<close>).

  An \<^verbatim>\<open>AnalysisID\<close> is a \<^verbatim>\<open>const void*\<close>: either the null pointer or the address of a
  pass's static \<^verbatim>\<open>ID\<close> byte. Distinct passes have distinct addresses, so the non-null
  identities are a datatype: one constructor for each identity the modelled functions
  name, and \<open>OtherPassID n\<close> for every other (target-specific) pass. The null pointer is
  \<open>None\<close>.
\<close>

datatype pass_id =
    PostRASchedulerID
  | BranchFolderPassID
  | TailDuplicateID
  | EarlyTailDuplicateID
  | MachineBlockPlacementID
  | CodePlacementOptID
  | StackSlotColoringID
  | DeadMachineInstructionElimID
  | EarlyIfConverterID
  | MachineLICMID
  | MachineCSEID
  | MachineSchedulerID
  | PostRAMachineLICMID
  | MachineSinkingID
  | MachineCopyPropagationID
  | PHIEliminationID
  | TwoAddressInstructionPassID
  | ProcessImplicitDefsID
  | LiveVariablesID
  | MachineLoopInfoID
  | LiveIntervalsID
  | StrongPHIEliminationID
  | RegisterCoalescerID
  | VirtRegRewriterID
  | MachineFunctionPrinterPassID
  | MachineVerifierPassID
  | RAGreedyID
  | RAFastID
  | OtherPassID nat

type_synonym AnalysisID = "pass_id option"

text \<open>
  A pass object (\<^verbatim>\<open>Pass*\<close>, non-null). The builder only ever reads \<^verbatim>\<open>P->getPassID()\<close>;
  the banner is the string handed to the printer and verifier factories.
\<close>

datatype Pass = MkPass (getPassID: pass_id) (Banner: string)

text \<open>\<^verbatim>\<open>cl::boolOrDefault\<close>.\<close>

datatype boolOrDefault = BOU_UNSET | BOU_TRUE | BOU_FALSE

text \<open>\<^verbatim>\<open>CodeGenOpt::Level\<close>.\<close>

datatype CodeGenOpt = CGO_None | CGO_Less | CGO_Default | CGO_Aggressive

text \<open>
  \<^verbatim>\<open>RegisterRegAlloc::FunctionPassCtor\<close>: a pointer to an allocator factory. The
  factory \<^verbatim>\<open>useDefaultRegisterAllocator\<close> (lines 589-593) is the sentinel that returns
  the null pass; every other registered factory returns the pass it builds.
\<close>

datatype FunctionPassCtor = useDefaultRegisterAllocator | RegisteredCtor Pass

text \<open>
  The \<^verbatim>\<open>static cl::opt\<close> globals of lines 47-107 and 596-600 that the modelled
  functions read.
\<close>

record cl_opts =
  DisablePostRA :: bool
  DisableBranchFold :: bool
  DisableTailDuplicate :: bool
  DisableEarlyTailDup :: bool
  DisableCodePlace :: bool
  DisableSSC :: bool
  DisableMachineDCE :: bool
  EnableEarlyIfConversion :: bool
  DisableMachineLICM :: bool
  DisableMachineCSE :: bool
  OptimizeRegAlloc :: boolOrDefault
  EnableMachineSched :: boolOrDefault
  EnableStrongPHIElim :: bool
  DisablePostRAMachineLICM :: bool
  DisableMachineSink :: bool
  DisableCopyProp :: bool
  VerifyMachineCode :: bool
  EarlyLiveIntervals :: bool
  RegAlloc :: FunctionPassCtor

text \<open>
  The fatal exits of the code: the two \<^verbatim>\<open>report_fatal_error\<close> calls, the
  \<^verbatim>\<open>llvm_unreachable\<close> of line 335, and the \<^verbatim>\<open>assert\<close>s (with their message).
\<close>

datatype error =
    TargetCannotEnablePass
  | CannotStopAfterPassNotRun
  | PassIDNotRegistered
  | AssertionFailed string

text \<open>Sequencing of fallible steps: the first fatal exit ends the construction.\<close>

definition bindE :: "error + 'a \<Rightarrow> ('a \<Rightarrow> error + 'b) \<Rightarrow> error + 'b" where
  "bindE m f = (case m of Inl e \<Rightarrow> Inl e | Inr x \<Rightarrow> f x)"

section \<open>Override rules (lines 113-199)\<close>

definition applyDisable :: "AnalysisID \<Rightarrow> bool \<Rightarrow> AnalysisID" where
  "applyDisable PassID Override = (if Override then None else PassID)"

definition applyOverride :: "AnalysisID \<Rightarrow> boolOrDefault \<Rightarrow> AnalysisID \<Rightarrow> error + AnalysisID" where
  "applyOverride TargetID Override StandardID =
     (case Override of
        BOU_UNSET \<Rightarrow> Inr TargetID
      | BOU_TRUE \<Rightarrow>
          (if TargetID \<noteq> None then Inr TargetID
           else if StandardID = None then Inl TargetCannotEnablePass
           else Inr StandardID)
      | BOU_FALSE \<Rightarrow> Inr None)"

definition overridePass :: "cl_opts \<Rightarrow> AnalysisID \<Rightarrow> AnalysisID \<Rightarrow> error + AnalysisID" where
  "overridePass opts StandardID TargetID =
     (if StandardID = Some PostRASchedulerID then
        Inr (applyDisable TargetID (DisablePostRA opts))
      else if StandardID = Some BranchFolderPassID then
        Inr (applyDisable TargetID (DisableBranchFold opts))
      else if StandardID = Some TailDuplicateID then
        Inr (applyDisable TargetID (DisableTailDuplicate opts))
      else if StandardID = Some EarlyTailDuplicateID then
        Inr (applyDisable TargetID (DisableEarlyTailDup opts))
      else if StandardID = Some MachineBlockPlacementID then
        Inr (applyDisable TargetID (DisableCodePlace opts))
      else if StandardID = Some CodePlacementOptID then
        Inr (applyDisable TargetID (DisableCodePlace opts))
      else if StandardID = Some StackSlotColoringID then
        Inr (applyDisable TargetID (DisableSSC opts))
      else if StandardID = Some DeadMachineInstructionElimID then
        Inr (applyDisable TargetID (DisableMachineDCE opts))
      else if StandardID = Some EarlyIfConverterID then
        Inr (applyDisable TargetID (\<not> EnableEarlyIfConversion opts))
      else if StandardID = Some MachineLICMID then
        Inr (applyDisable TargetID (DisableMachineLICM opts))
      else if StandardID = Some MachineCSEID then
        Inr (applyDisable TargetID (DisableMachineCSE opts))
      else if StandardID = Some MachineSchedulerID then
        applyOverride TargetID (EnableMachineSched opts) StandardID
      else if StandardID = Some PostRAMachineLICMID then
        Inr (applyDisable TargetID (DisablePostRAMachineLICM opts))
      else if StandardID = Some MachineSinkingID then
        Inr (applyDisable TargetID (DisableMachineSink opts))
      else if StandardID = Some MachineCopyPropagationID then
        Inr (applyDisable TargetID (DisableCopyProp opts))
      else Inr TargetID)"

section \<open>The pass configuration (lines 213-299)\<close>

text \<open>
  The part of \<^verbatim>\<open>TargetMachine\<close> the builder reads: \<^verbatim>\<open>getOptLevel()\<close> and
  \<^verbatim>\<open>shouldPrintMachineCode()\<close>, which returns \<^verbatim>\<open>Options.PrintMachineCode\<close>.
\<close>

record TargetMachine =
  OptLevel :: CodeGenOpt
  PrintMachineCode :: bool

text \<open>
  \<^verbatim>\<open>TargetPassConfig\<close> with its \<^verbatim>\<open>PassConfigImpl\<close> inlined: \<open>TargetPasses\<close> is the
  \<^verbatim>\<open>DenseMap\<close> of substitutions (a value may be the null identity), \<open>InsertedPasses\<close> the
  vector of (anchor, extra) pairs in insertion order. \<open>PM\<close> is the pass manager, seen as
  the list of the passes added to it so far.
\<close>

record TargetPassConfig =
  PM :: "Pass list"
  StartAfter :: AnalysisID
  StopAfter :: AnalysisID
  Started :: bool
  Stopped :: bool
  TM :: TargetMachine
  Initialized :: bool
  DisableVerify :: bool
  EnableTailMerge :: bool
  TargetPasses :: "AnalysisID \<rightharpoonup> AnalysisID"
  InsertedPasses :: "(AnalysisID \<times> AnalysisID) list"

definition substitutePass :: "AnalysisID \<Rightarrow> AnalysisID \<Rightarrow> TargetPassConfig \<Rightarrow> TargetPassConfig" where
  "substitutePass StandardID TargetID c =
     c\<lparr>TargetPasses := (TargetPasses c)(StandardID \<mapsto> TargetID)\<rparr>"

text \<open>
  Modelled from the spec: \<^verbatim>\<open>disablePass\<close> is declared in the header, which is not among
  the sources. The spec (4.2, and the comment at line 254) has a disabled pass as a
  substitution by the null identity.
\<close>

definition disablePass :: "AnalysisID \<Rightarrow> TargetPassConfig \<Rightarrow> TargetPassConfig" where
  "disablePass ID c = substitutePass ID None c"

definition getPassSubstitution :: "TargetPassConfig \<Rightarrow> AnalysisID \<Rightarrow> AnalysisID" where
  "getPassSubstitution c ID =
     (case TargetPasses c ID of None \<Rightarrow> ID | Some TargetID \<Rightarrow> TargetID)"

text \<open>The constructor of lines 238-259, given the target machine and the pass manager.\<close>

definition TargetPassConfig_ctor :: "TargetMachine \<Rightarrow> Pass list \<Rightarrow> TargetPassConfig" where
  "TargetPassConfig_ctor tm pm =
     (let c0 = \<lparr>PM = pm, StartAfter = None, StopAfter = None,
                Started = True, Stopped = False, TM = tm, Initialized = False,
                DisableVerify = False, EnableTailMerge = True,
                TargetPasses = Map.empty, InsertedPasses = []\<rparr>;
          c1 = substitutePass (Some EarlyTailDuplicateID) (Some TailDuplicateID) c0;
          c2 = substitutePass (Some PostRAMachineLICMID) (Some MachineLICMID) c1;
          c3 = disablePass (Some EarlyIfConverterID) c2
      in substitutePass (Some MachineSchedulerID) None c3)"

definition insertPass :: "AnalysisID \<Rightarrow> AnalysisID \<Rightarrow> TargetPassConfig \<Rightarrow> error + TargetPassConfig" where
  "insertPass TargetPassID InsertedPassID c =
     (if TargetPassID = InsertedPassID then Inl (AssertionFailed ''Insert a pass after itself!'')
      else Inr (c\<lparr>InsertedPasses := InsertedPasses c @ [(TargetPassID, InsertedPassID)]\<rparr>))"

text \<open>
  Modelled from the spec: \<^verbatim>\<open>setStartStopPasses\<close> is declared in the header, which is not
  among the sources. The spec (3, 4.4): the boundaries are stored, and \<open>Started\<close> is initially
  true unless a StartAfter boundary is configured.
\<close>

definition setStartStopPasses :: "AnalysisID \<Rightarrow> AnalysisID \<Rightarrow> TargetPassConfig \<Rightarrow> TargetPassConfig" where
  "setStartStopPasses Start Stop c =
     c\<lparr>StartAfter := Start, StopAfter := Stop, Started := (Start = None)\<rparr>"

section \<open>The pipeline gate and scheduling by identity (lines 306-357)\<close>

text \<open>\<^verbatim>\<open>addPass(Pass *P)\<close>, lines 306-323.\<close>

definition addPass_P :: "Pass \<Rightarrow> TargetPassConfig \<Rightarrow> error + TargetPassConfig" where
  "addPass_P P c =
     (if Initialized c then Inl (AssertionFailed ''PassConfig is immutable'')
      else
        let PassID = Some (getPassID P);
            c1 = (if Started c \<and> \<not> Stopped c then c\<lparr>PM := PM c @ [P]\<rparr> else c);
            c2 = (if StopAfter c1 = PassID then c1\<lparr>Stopped := True\<rparr> else c1);
            c3 = (if StartAfter c2 = PassID then c2\<lparr>Started := True\<rparr> else c2)
        in if Stopped c3 \<and> \<not> Started c3 then Inl CannotStopAfterPassNotRun else Inr c3)"

text \<open>
  Modelled from the spec: \<^verbatim>\<open>Pass::createPass\<close> and the pass registry are not among the
  sources. The spec (2, 4.1): a process-wide lookup from an identity to a factory that
  builds a pass of that kind; the lookup of an unregistered (or null) identity returns no
  pass. The registry is the parameter \<open>PR\<close>, the set of registered identities.
\<close>

definition createPass :: "(pass_id \<Rightarrow> bool) \<Rightarrow> AnalysisID \<Rightarrow> Pass option" where
  "createPass PR ID =
     (case ID of None \<Rightarrow> None
      | Some i \<Rightarrow> if PR i then Some (MkPass i []) else None)"

text \<open>
  The loop of lines 338-347 over the insertion list, for the scheduled standard identity
  \<open>PassID\<close>.
\<close>

fun addInserted ::
  "(pass_id \<Rightarrow> bool) \<Rightarrow> AnalysisID \<Rightarrow> (AnalysisID \<times> AnalysisID) list \<Rightarrow> TargetPassConfig
     \<Rightarrow> error + TargetPassConfig" where
  "addInserted PR PassID [] c = Inr c"
| "addInserted PR PassID (I # Is) c =
     (if fst I = PassID then
        (if snd I = None then Inl (AssertionFailed ''Illegal Pass ID!'')
         else case createPass PR (snd I) of
                None \<Rightarrow> Inl (AssertionFailed ''Pass ID not registered'')
              | Some NP \<Rightarrow> bindE (addPass_P NP c) (addInserted PR PassID Is))
      else addInserted PR PassID Is c)"

text \<open>\<^verbatim>\<open>addPass(AnalysisID PassID)\<close>, lines 327-349; the result carries the returned identity.\<close>

definition addPass_ID ::
  "cl_opts \<Rightarrow> (pass_id \<Rightarrow> bool) \<Rightarrow> AnalysisID \<Rightarrow> TargetPassConfig
     \<Rightarrow> error + (TargetPassConfig \<times> AnalysisID)" where
  "addPass_ID opts PR PassID c =
     (let TargetID = getPassSubstitution c PassID
      in bindE (overridePass opts PassID TargetID) (\<lambda>FinalID.
           if FinalID = None then Inr (c, FinalID)
           else case createPass PR FinalID of
                  None \<Rightarrow> Inl PassIDNotRegistered
                | Some P \<Rightarrow>
                    bindE (addPass_P P c) (\<lambda>c1.
                    bindE (addInserted PR PassID (InsertedPasses c1) c1) (\<lambda>c2.
                      Inr (c2, FinalID)))))"

text \<open>\<^verbatim>\<open>addPass(AnalysisID)\<close> called as a statement: the returned identity is dropped.\<close>

definition addPass_ID_stmt ::
  "cl_opts \<Rightarrow> (pass_id \<Rightarrow> bool) \<Rightarrow> AnalysisID \<Rightarrow> TargetPassConfig \<Rightarrow> error + TargetPassConfig" where
  "addPass_ID_stmt opts PR PassID c = bindE (addPass_ID opts PR PassID c) (\<lambda>r. Inr (fst r))"

text \<open>
  \<^verbatim>\<open>printAndVerify\<close>, lines 351-357. The two factories are not among the sources; each
  builds a pass of its own kind that keeps the banner.
\<close>

definition createMachineFunctionPrinterPass :: "string \<Rightarrow> Pass" where
  "createMachineFunctionPrinterPass B = MkPass MachineFunctionPrinterPassID B"

definition createMachineVerifierPass :: "string \<Rightarrow> Pass" where
  "createMachineVerifierPass B = MkPass MachineVerifierPassID B"

definition printAndVerify :: "cl_opts \<Rightarrow> string \<Rightarrow> TargetPassConfig \<Rightarrow> error + TargetPassConfig" where
  "printAndVerify opts B c =
     bindE (if PrintMachineCode (TM c) then addPass_P (createMachineFunctionPrinterPass B) c
            else Inr c) (\<lambda>c1.
       if VerifyMachineCode opts then addPass_P (createMachineVerifierPass B) c1
       else Inr c1)"

section \<open>Register allocation (lines 575-722)\<close>

definition getOptimizeRegAlloc :: "cl_opts \<Rightarrow> TargetPassConfig \<Rightarrow> bool" where
  "getOptimizeRegAlloc opts c =
     (case OptimizeRegAlloc opts of
        BOU_UNSET \<Rightarrow> OptLevel (TM c) \<noteq> CGO_None
      | BOU_TRUE \<Rightarrow> True
      | BOU_FALSE \<Rightarrow> False)"

text \<open>
  The two allocator factories of lines 613 and 615 are not among the sources; each builds a
  pass of its own kind.
\<close>

definition createGreedyRegisterAllocator :: Pass where
  "createGreedyRegisterAllocator = MkPass RAGreedyID []"

definition createFastRegisterAllocator :: Pass where
  "createFastRegisterAllocator = MkPass RAFastID []"

definition createTargetRegisterAllocator :: "bool \<Rightarrow> Pass" where
  "createTargetRegisterAllocator Optimized =
     (if Optimized then createGreedyRegisterAllocator else createFastRegisterAllocator)"

text \<open>
  \<^verbatim>\<open>createRegAllocPass\<close>, lines 627-640. The process-wide default of the allocator
  registry (\<^verbatim>\<open>RegisterRegAlloc::getDefault\<close> and \<^verbatim>\<open>setDefault\<close>, a global function pointer
  that starts null) is threaded through as \<open>Default\<close>: the function returns the pass and
  the new value of the global.
\<close>

definition createRegAllocPass ::
  "cl_opts \<Rightarrow> bool \<Rightarrow> FunctionPassCtor option \<Rightarrow> Pass \<times> FunctionPassCtor option" where
  "createRegAllocPass opts Optimized Default =
     (let (Ctor, Default1) =
            (case Default of
               None \<Rightarrow> (RegAlloc opts, Some (RegAlloc opts))
             | Some C \<Rightarrow> (C, Default))
      in case Ctor of
           RegisteredCtor P \<Rightarrow> (P, Default1)
         | useDefaultRegisterAllocator \<Rightarrow> (createTargetRegisterAllocator Optimized, Default1))"

text \<open>\<^verbatim>\<open>addFastRegAlloc\<close>, lines 644-650.\<close>

definition addFastRegAlloc ::
  "cl_opts \<Rightarrow> (pass_id \<Rightarrow> bool) \<Rightarrow> Pass \<Rightarrow> TargetPassConfig \<Rightarrow> error + TargetPassConfig" where
  "addFastRegAlloc opts PR RegAllocPass c =
     bindE (addPass_ID_stmt opts PR (Some PHIEliminationID) c) (\<lambda>c.
     bindE (addPass_ID_stmt opts PR (Some TwoAddressInstructionPassID) c) (\<lambda>c.
     bindE (addPass_P RegAllocPass c) (\<lambda>c.
       printAndVerify opts ''After Register Allocation'' c)))"

text \<open>
  Modelled from the spec: the hooks \<^verbatim>\<open>addPreRewrite\<close> and \<^verbatim>\<open>addFinalizeRegAlloc\<close> are
  defined in the header, which is not among the sources. The spec (4.6) and the comment at
  lines 441-443 have them as empty hooks: they add nothing and report that nothing was
  added.
\<close>

definition addPreRewrite :: "TargetPassConfig \<Rightarrow> error + (TargetPassConfig \<times> bool)" where
  "addPreRewrite c = Inr (c, False)"

definition addFinalizeRegAlloc :: "TargetPassConfig \<Rightarrow> error + (TargetPassConfig \<times> bool)" where
  "addFinalizeRegAlloc c = Inr (c, False)"

text \<open>\<^verbatim>\<open>addOptimizedRegAlloc\<close>, lines 655-722.\<close>

definition addOptimizedRegAlloc ::
  "cl_opts \<Rightarrow> (pass_id \<Rightarrow> bool) \<Rightarrow> Pass \<Rightarrow> TargetPassConfig \<Rightarrow> error + TargetPassConfig" where
  "addOptimizedRegAlloc opts PR RegAllocPass c =
     bindE (addPass_ID_stmt opts PR (Some ProcessImplicitDefsID) c) (\<lambda>c.
     bindE (addPass_ID_stmt opts PR (Some LiveVariablesID) c) (\<lambda>c.
     bindE (if \<not> EnableStrongPHIElim opts then
              bindE (addPass_ID_stmt opts PR (Some MachineLoopInfoID) c)
                (addPass_ID_stmt opts PR (Some PHIEliminationID))
            else Inr c) (\<lambda>c.
     bindE (if EarlyLiveIntervals opts then addPass_ID_stmt opts PR (Some LiveIntervalsID) c
            else Inr c) (\<lambda>c.
     bindE (addPass_ID_stmt opts PR (Some TwoAddressInstructionPassID) c) (\<lambda>c.
     bindE (if EnableStrongPHIElim opts then
              addPass_ID_stmt opts PR (Some StrongPHIEliminationID) c
            else Inr c) (\<lambda>c.
     bindE (addPass_ID_stmt opts PR (Some RegisterCoalescerID) c) (\<lambda>c.
     bindE (addPass_ID opts PR (Some MachineSchedulerID) c) (\<lambda>r.
     bindE (if snd r \<noteq> None then printAndVerify opts ''After Machine Scheduling'' (fst r)
            else Inr (fst r)) (\<lambda>c.
     bindE (addPass_P RegAllocPass c) (\<lambda>c.
     bindE (printAndVerify opts ''After Register Allocation, before rewriter'' c) (\<lambda>c.
     bindE (addPreRewrite c) (\<lambda>r.
     bindE (if snd r then printAndVerify opts ''After pre-rewrite passes'' (fst r)
            else Inr (fst r)) (\<lambda>c.
     bindE (addPass_ID_stmt opts PR (Some VirtRegRewriterID) c) (\<lambda>c.
     bindE (printAndVerify opts ''After Virtual Register Rewriter'' c) (\<lambda>c.
     bindE (addFinalizeRegAlloc c) (\<lambda>r.
     bindE (if snd r then printAndVerify opts ''After RegAlloc finalization'' (fst r)
            else Inr (fst r)) (\<lambda>c.
     bindE (addPass_ID_stmt opts PR (Some StackSlotColoringID) c) (\<lambda>c.
     bindE (addPass_ID_stmt opts PR (Some PostRAMachineLICMID) c) (\<lambda>c.
       printAndVerify opts ''After StackSlotColoring and postra Machine LICM'' c
     )))))))))))))))))))"

text \<open>
  The register-allocation step of \<^verbatim>\<open>addMachinePasses\<close>, lines 492-495: the mode chooses
  the path, and the allocator pass comes from \<^verbatim>\<open>createRegAllocPass\<close> (which reads and
  writes the process-wide default).
\<close>

definition addMachinePasses_RegAlloc ::
  "cl_opts \<Rightarrow> (pass_id \<Rightarrow> bool) \<Rightarrow> FunctionPassCtor option \<Rightarrow> TargetPassConfig
     \<Rightarrow> error + (TargetPassConfig \<times> FunctionPassCtor option)" where
  "addMachinePasses_RegAlloc opts PR Default c =
     (if getOptimizeRegAlloc opts c then
        (let r = createRegAllocPass opts True Default
         in bindE (addOptimizedRegAlloc opts PR (fst r) c) (\<lambda>c1. Inr (c1, snd r)))
      else
        (let r = createRegAllocPass opts False Default
         in bindE (addFastRegAlloc opts PR (fst r) c) (\<lambda>c1. Inr (c1, snd r))))"

section \<open>Scenarios and expected pass lists\<close>

text \<open>
  A sequence of candidate pass objects presented to the gate one after the other: the
  successive calls \<^verbatim>\<open>addPass(P1); addPass(P2); ...\<close> of a stage.
\<close>

fun addPasses :: "Pass list \<Rightarrow> TargetPassConfig \<Rightarrow> error + TargetPassConfig" where
  "addPasses [] c = Inr c"
| "addPasses (P # Ps) c = bindE (addPass_P P c) (addPasses Ps)"

text \<open>
  The extras the loop of lines 338-347 selects for the scheduled standard identity: the second
  components of the pairs anchored at it, in insertion order.
\<close>

definition insertedAfter :: "AnalysisID \<Rightarrow> (AnalysisID \<times> AnalysisID) list \<Rightarrow> AnalysisID list" where
  "insertedAfter PassID Is = map snd (filter (\<lambda>I. fst I = PassID) Is)"

text \<open>
  The options as the code declares them when the command line sets none: a \<^verbatim>\<open>bool\<close>
  option is false, a \<^verbatim>\<open>boolOrDefault\<close> option is unset, \<^verbatim>\<open>-regalloc\<close> is initialised to
  the sentinel factory (line 599). \<^verbatim>\<open>-verify-machineinstrs\<close> is initialised from the
  environment variable of line 99, taken here to be unset.
\<close>

definition default_opts :: cl_opts where
  "default_opts =
     \<lparr>DisablePostRA = False, DisableBranchFold = False, DisableTailDuplicate = False,
      DisableEarlyTailDup = False, DisableCodePlace = False, DisableSSC = False,
      DisableMachineDCE = False, EnableEarlyIfConversion = False,
      DisableMachineLICM = False, DisableMachineCSE = False,
      OptimizeRegAlloc = BOU_UNSET, EnableMachineSched = BOU_UNSET,
      EnableStrongPHIElim = False, DisablePostRAMachineLICM = False,
      DisableMachineSink = False, DisableCopyProp = False,
      VerifyMachineCode = False, EarlyLiveIntervals = False,
      RegAlloc = useDefaultRegisterAllocator\<rparr>"

text \<open>
  A target machine at optimization level Default that does not print machine code, and a
  registry in which every identity is registered.
\<close>

definition tm_default :: TargetMachine where
  "tm_default = \<lparr>OptLevel = CGO_Default, PrintMachineCode = False\<rparr>"

definition all_registered :: "pass_id \<Rightarrow> bool" where
  "all_registered i = True"

text \<open>
  The registry holds the standard passes that the two register-allocation paths schedule
  (\<^verbatim>\<open>initializeCodeGen\<close>, line 248, registers all of them).
\<close>

definition standard_registered :: "(pass_id \<Rightarrow> bool) \<Rightarrow> bool" where
  "standard_registered PR =
     list_all PR [PHIEliminationID, TwoAddressInstructionPassID, ProcessImplicitDefsID,
                  LiveVariablesID, MachineLoopInfoID, LiveIntervalsID, StrongPHIEliminationID,
                  RegisterCoalescerID, MachineSchedulerID, VirtRegRewriterID,
                  StackSlotColoringID, MachineLICMID]"

text \<open>
  The passes one call of \<^verbatim>\<open>printAndVerify\<close> contributes, and the two register-allocation
  paths as the spec (4.6b) lists them, with the instrumentation of \<^verbatim>\<open>printAndVerify\<close>
  written in; \<open>sched\<close> says whether the pre-allocation scheduling slot is filled. They are
  compared with \<open>addFastRegAlloc\<close> and \<open>addOptimizedRegAlloc\<close> below.
\<close>

definition printAndVerifyPasses :: "cl_opts \<Rightarrow> TargetMachine \<Rightarrow> string \<Rightarrow> Pass list" where
  "printAndVerifyPasses opts tm B =
     (if PrintMachineCode tm then [createMachineFunctionPrinterPass B] else [])
     @ (if VerifyMachineCode opts then [createMachineVerifierPass B] else [])"

definition fastRegAllocPasses :: "cl_opts \<Rightarrow> TargetMachine \<Rightarrow> Pass \<Rightarrow> Pass list" where
  "fastRegAllocPasses opts tm RA =
     [MkPass PHIEliminationID [], MkPass TwoAddressInstructionPassID [], RA]
     @ printAndVerifyPasses opts tm ''After Register Allocation''"

definition optimizedRegAllocPasses :: "cl_opts \<Rightarrow> TargetMachine \<Rightarrow> bool \<Rightarrow> Pass \<Rightarrow> Pass list" where
  "optimizedRegAllocPasses opts tm sched RA =
     [MkPass ProcessImplicitDefsID [], MkPass LiveVariablesID []]
     @ (if EnableStrongPHIElim opts then []
        else [MkPass MachineLoopInfoID [], MkPass PHIEliminationID []])
     @ (if EarlyLiveIntervals opts then [MkPass LiveIntervalsID []] else [])
     @ [MkPass TwoAddressInstructionPassID []]
     @ (if EnableStrongPHIElim opts then [MkPass StrongPHIEliminationID []] else [])
     @ [MkPass RegisterCoalescerID []]
     @ (if sched
        then MkPass MachineSchedulerID []
             # printAndVerifyPasses opts tm ''After Machine Scheduling''
        else [])
     @ [RA]
     @ printAndVerifyPasses opts tm ''After Register Allocation, before rewriter''
     @ [MkPass VirtRegRewriterID []]
     @ printAndVerifyPasses opts tm ''After Virtual Register Rewriter''
     @ (if DisableSSC opts then [] else [MkPass StackSlotColoringID []])
     @ (if DisablePostRAMachineLICM opts then [] else [MkPass MachineLICMID []])
     @ printAndVerifyPasses opts tm ''After StackSlotColoring and postra Machine LICM''"

text \<open>
  Whether the pre-allocation scheduling slot of the optimized path gets a pass: the
  resolution of the machine scheduler's identity (\<open>overridePass\<close> of its substitute) when
  the substitute is null or the scheduler itself; see \<open>schedulerRuns_resolution\<close> below.
\<close>

definition schedulerRuns :: "cl_opts \<Rightarrow> TargetPassConfig \<Rightarrow> bool" where
  "schedulerRuns opts c \<longleftrightarrow>
     EnableMachineSched opts = BOU_TRUE
     \<or> (EnableMachineSched opts = BOU_UNSET
         \<and> getPassSubstitution c (Some MachineSchedulerID) = Some MachineSchedulerID)"

text \<open>
  The gate lets every pass through and nothing is inserted: the state the constructor
  leaves.
\<close>

definition plain_gate :: "TargetPassConfig \<Rightarrow> bool" where
  "plain_gate c \<longleftrightarrow>
     \<not> Initialized c \<and> Started c \<and> \<not> Stopped c \<and> StopAfter c = None \<and> InsertedPasses c = []"

text \<open>
  A target machine at optimization level None that does not print machine code.
\<close>

definition tm_unoptimized :: TargetMachine where
  "tm_unoptimized = \<lparr>OptLevel = CGO_None, PrintMachineCode = False\<rparr>"

section \<open>Basic facts\<close>

lemma bindE_Inr [simp]: "bindE (Inr x) f = f x"
  by (simp add: bindE_def)

lemma bindE_Inl [simp]: "bindE (Inl e) f = Inl e"
  by (simp add: bindE_def)

lemma addPass_P_open:
  "\<not> Initialized c \<Longrightarrow> Started c \<Longrightarrow> \<not> Stopped c \<Longrightarrow> StopAfter c \<noteq> Some (getPassID P)
     \<Longrightarrow> addPass_P P c = Inr (c\<lparr>PM := PM c @ [P]\<rparr>)"
  by (simp add: addPass_P_def Let_def)

lemma addPass_P_InsertedPasses:
  "addPass_P P c = Inr c1 \<Longrightarrow> InsertedPasses c1 = InsertedPasses c"
  by (auto simp add: addPass_P_def Let_def split: if_splits)

lemma addPass_P_PM:
  "addPass_P P c = Inr c1 \<Longrightarrow> PM c1 = (if Started c \<and> \<not> Stopped c then PM c @ [P] else PM c)"
  by (auto simp add: addPass_P_def Let_def split: if_splits)

text \<open>
  The loop over the insertion list presents exactly the recorded extras of the anchor to the
  gate, in order, provided each is a registered non-null identity.
\<close>

lemma addInserted_addPasses:
  "\<forall>z \<in> set (insertedAfter X Is). \<exists>i. z = Some i \<and> PR i
     \<Longrightarrow> addInserted PR X Is c
           = addPasses (map (\<lambda>z. MkPass (the z) []) (insertedAfter X Is)) c"
proof (induction Is arbitrary: c)
  case Nil
  then show ?case by (simp add: insertedAfter_def)
next
  case (Cons I Is)
  have rest: "\<forall>z \<in> set (insertedAfter X Is). \<exists>i. z = Some i \<and> PR i"
    using Cons.prems by (simp add: insertedAfter_def)
  have ih: "addInserted PR X Is = addPasses (map (\<lambda>z. MkPass (the z) []) (insertedAfter X Is))"
    using Cons.IH [OF rest] by (intro ext)
  show ?case
  proof (cases "fst I = X")
    case True
    then obtain i where i: "snd I = Some i" "PR i"
      using Cons.prems by (auto simp add: insertedAfter_def)
    show ?thesis using True i ih
      by (simp add: insertedAfter_def createPass_def)
  next
    case False
    then show ?thesis using ih by (simp add: insertedAfter_def)
  qed
qed

lemma addPass_ID_resolved:
  assumes "overridePass opts X (getPassSubstitution c X) = Inr (Some F)"
    and "PR F"
  shows "addPass_ID opts PR X c
           = bindE (addPass_P (MkPass F []) c) (\<lambda>c1.
             bindE (addInserted PR X (InsertedPasses c) c1) (\<lambda>c2. Inr (c2, Some F)))"
proof (cases "addPass_P (MkPass F []) c")
  case (Inl e)
  then show ?thesis using assms by (simp add: addPass_ID_def createPass_def)
next
  case (Inr c1)
  then show ?thesis using assms addPass_P_InsertedPasses [OF Inr]
    by (simp add: addPass_ID_def createPass_def)
qed

text \<open>
  The gate never reads the substitution table: changing the table commutes with presenting
  passes.
\<close>

lemma addPass_P_TargetPasses:
  "addPass_P P (c\<lparr>TargetPasses := tp\<rparr>)
     = bindE (addPass_P P c) (\<lambda>c1. Inr (c1\<lparr>TargetPasses := tp\<rparr>))"
  by (simp add: addPass_P_def Let_def)

lemma addPasses_TargetPasses:
  "addPasses Ps (c\<lparr>TargetPasses := tp\<rparr>)
     = bindE (addPasses Ps c) (\<lambda>c1. Inr (c1\<lparr>TargetPasses := tp\<rparr>))"
proof (induction Ps arbitrary: c)
  case Nil
  then show ?case by simp
next
  case (Cons P Ps)
  show ?case
    by (cases "addPass_P P c") (simp_all add: addPass_P_TargetPasses Cons.IH)
qed

subsection \<open>Configurations with an open gate and no insertion\<close>

text \<open>
  From such a configuration every state reached by appending passes is the configuration
  with a longer \<open>PM\<close>, so each scheduling step is an append of the resolved pass.
\<close>

lemma getPassSubstitution_PM [simp]:
  "getPassSubstitution (c\<lparr>PM := ps\<rparr>) X = getPassSubstitution c X"
  by (simp add: getPassSubstitution_def)

lemma plain_addPass_P:
  "plain_gate c \<Longrightarrow> addPass_P P (c\<lparr>PM := ps\<rparr>) = Inr (c\<lparr>PM := ps @ [P]\<rparr>)"
  by (simp add: plain_gate_def addPass_P_def Let_def)

lemma plain_printAndVerify:
  "plain_gate c \<Longrightarrow> printAndVerify opts B (c\<lparr>PM := ps\<rparr>)
     = Inr (c\<lparr>PM := ps @ printAndVerifyPasses opts (TM c) B\<rparr>)"
  by (simp add: printAndVerify_def printAndVerifyPasses_def plain_addPass_P)

lemma plain_addPass_ID:
  assumes "plain_gate c"
  shows "addPass_ID opts PR X (c\<lparr>PM := ps\<rparr>)
     = bindE (overridePass opts X (getPassSubstitution c X))
         (\<lambda>FinalID. case FinalID of
              None \<Rightarrow> Inr (c\<lparr>PM := ps\<rparr>, None)
            | Some F \<Rightarrow> if PR F then Inr (c\<lparr>PM := ps @ [MkPass F []]\<rparr>, Some F)
                        else Inl PassIDNotRegistered)"
proof -
  have ins: "InsertedPasses c = []"
    using assms by (simp add: plain_gate_def)
  show ?thesis
    by (cases "overridePass opts X (getPassSubstitution c X)")
      (auto simp add: addPass_ID_def createPass_def plain_addPass_P [OF assms] ins
        split: option.splits)
qed

lemma plain_addPass_ID_unsubstituted:
  assumes "plain_gate c"
    and "X \<in> {PHIEliminationID, TwoAddressInstructionPassID, ProcessImplicitDefsID,
                 LiveVariablesID, MachineLoopInfoID, LiveIntervalsID, StrongPHIEliminationID,
                 RegisterCoalescerID, VirtRegRewriterID}"
    and "getPassSubstitution c (Some X) = Some X"
    and "PR X"
  shows "addPass_ID_stmt opts PR (Some X) (c\<lparr>PM := ps\<rparr>) = Inr (c\<lparr>PM := ps @ [MkPass X []]\<rparr>)"
  using assms(2-4)
  by (auto simp add: addPass_ID_stmt_def plain_addPass_ID [OF assms(1)] overridePass_def)

lemma schedulerRuns_resolution:
  assumes "getPassSubstitution c (Some MachineSchedulerID) = None
           \<or> getPassSubstitution c (Some MachineSchedulerID) = Some MachineSchedulerID"
  shows "overridePass opts (Some MachineSchedulerID)
           (getPassSubstitution c (Some MachineSchedulerID))
         = Inr (if schedulerRuns opts c then Some MachineSchedulerID else None)"
  using assms
  by (cases "EnableMachineSched opts")
    (auto simp add: overridePass_def applyOverride_def schedulerRuns_def)

lemma plain_addPass_ID_MachineScheduler:
  assumes "plain_gate c"
    and "getPassSubstitution c (Some MachineSchedulerID) = None
         \<or> getPassSubstitution c (Some MachineSchedulerID) = Some MachineSchedulerID"
    and "PR MachineSchedulerID"
  shows "addPass_ID opts PR (Some MachineSchedulerID) (c\<lparr>PM := ps\<rparr>)
           = (if schedulerRuns opts c
              then Inr (c\<lparr>PM := ps @ [MkPass MachineSchedulerID []]\<rparr>, Some MachineSchedulerID)
              else Inr (c\<lparr>PM := ps\<rparr>, None))"
  using assms(2,3)
  by (cases "EnableMachineSched opts")
    (auto simp add: plain_addPass_ID [OF assms(1)] overridePass_def applyOverride_def
      schedulerRuns_def)

lemma plain_addPass_ID_StackSlotColoring:
  assumes "plain_gate c"
    and "getPassSubstitution c (Some StackSlotColoringID) = Some StackSlotColoringID"
    and "PR StackSlotColoringID"
  shows "addPass_ID_stmt opts PR (Some StackSlotColoringID) (c\<lparr>PM := ps\<rparr>)
           = Inr (c\<lparr>PM := ps @ (if DisableSSC opts then [] else [MkPass StackSlotColoringID []])\<rparr>)"
  using assms(2,3)
  by (simp add: addPass_ID_stmt_def plain_addPass_ID [OF assms(1)] overridePass_def
      applyDisable_def)

lemma plain_addPass_ID_PostRAMachineLICM:
  assumes "plain_gate c"
    and "getPassSubstitution c (Some PostRAMachineLICMID) = Some MachineLICMID"
    and "PR MachineLICMID"
  shows "addPass_ID_stmt opts PR (Some PostRAMachineLICMID) (c\<lparr>PM := ps\<rparr>)
           = Inr (c\<lparr>PM := ps @ (if DisablePostRAMachineLICM opts then []
                                  else [MkPass MachineLICMID []])\<rparr>)"
  using assms(2,3)
  by (simp add: addPass_ID_stmt_def plain_addPass_ID [OF assms(1)] overridePass_def
      applyDisable_def)

lemma addFastRegAlloc_plain:
  assumes "plain_gate c"
    and "getPassSubstitution c (Some PHIEliminationID) = Some PHIEliminationID"
    and "getPassSubstitution c (Some TwoAddressInstructionPassID) = Some TwoAddressInstructionPassID"
    and "PR PHIEliminationID" and "PR TwoAddressInstructionPassID"
  shows "addFastRegAlloc opts PR RA (c\<lparr>PM := ps\<rparr>)
           = Inr (c\<lparr>PM := ps @ fastRegAllocPasses opts (TM c) RA\<rparr>)"
  using assms(2-5)
  by (simp add: addFastRegAlloc_def fastRegAllocPasses_def
      plain_addPass_ID_unsubstituted [OF assms(1)] plain_addPass_P [OF assms(1)]
      plain_printAndVerify [OF assms(1)])

lemma addOptimizedRegAlloc_plain:
  assumes "plain_gate c"
    and "list_all (\<lambda>i. getPassSubstitution c (Some i) = Some i)
           [PHIEliminationID, TwoAddressInstructionPassID, ProcessImplicitDefsID,
            LiveVariablesID, MachineLoopInfoID, LiveIntervalsID, StrongPHIEliminationID,
            RegisterCoalescerID, VirtRegRewriterID, StackSlotColoringID]"
    and "getPassSubstitution c (Some PostRAMachineLICMID) = Some MachineLICMID"
    and "getPassSubstitution c (Some MachineSchedulerID) = None
         \<or> getPassSubstitution c (Some MachineSchedulerID) = Some MachineSchedulerID"
    and "standard_registered PR"
  shows "addOptimizedRegAlloc opts PR RA (c\<lparr>PM := ps\<rparr>)
           = Inr (c\<lparr>PM := ps @ optimizedRegAllocPasses opts (TM c) (schedulerRuns opts c) RA\<rparr>)"
proof -
  have reg: "PR PHIEliminationID" "PR TwoAddressInstructionPassID" "PR ProcessImplicitDefsID"
    "PR LiveVariablesID" "PR MachineLoopInfoID" "PR LiveIntervalsID"
    "PR StrongPHIEliminationID" "PR RegisterCoalescerID" "PR MachineSchedulerID"
    "PR VirtRegRewriterID" "PR StackSlotColoringID" "PR MachineLICMID"
    using assms(5) by (simp_all add: standard_registered_def)
  have sub: "getPassSubstitution c (Some PHIEliminationID) = Some PHIEliminationID"
    "getPassSubstitution c (Some TwoAddressInstructionPassID) = Some TwoAddressInstructionPassID"
    "getPassSubstitution c (Some ProcessImplicitDefsID) = Some ProcessImplicitDefsID"
    "getPassSubstitution c (Some LiveVariablesID) = Some LiveVariablesID"
    "getPassSubstitution c (Some MachineLoopInfoID) = Some MachineLoopInfoID"
    "getPassSubstitution c (Some LiveIntervalsID) = Some LiveIntervalsID"
    "getPassSubstitution c (Some StrongPHIEliminationID) = Some StrongPHIEliminationID"
    "getPassSubstitution c (Some RegisterCoalescerID) = Some RegisterCoalescerID"
    "getPassSubstitution c (Some VirtRegRewriterID) = Some VirtRegRewriterID"
    "getPassSubstitution c (Some StackSlotColoringID) = Some StackSlotColoringID"
    using assms(2) by simp_all
  note steps = plain_addPass_ID_unsubstituted [OF assms(1)] plain_addPass_P [OF assms(1)]
    plain_printAndVerify [OF assms(1)]
    plain_addPass_ID_MachineScheduler [where PR = PR, OF assms(1) assms(4) reg(9)]
    plain_addPass_ID_StackSlotColoring [where PR = PR, OF assms(1) sub(10) reg(11)]
    plain_addPass_ID_PostRAMachineLICM [where PR = PR, OF assms(1) assms(3) reg(12)]
    addPreRewrite_def addFinalizeRegAlloc_def
  show ?thesis
    unfolding addOptimizedRegAlloc_def optimizedRegAllocPasses_def
    by (cases "EnableStrongPHIElim opts"; cases "EarlyLiveIntervals opts";
        cases "schedulerRuns opts c")
      (simp_all add: reg sub steps split del: if_split)
qed

subsection \<open>A freshly constructed configuration\<close>

lemma ctor_PM_update: "(TargetPassConfig_ctor tm ps)\<lparr>PM := qs\<rparr> = TargetPassConfig_ctor tm qs"
  by (simp add: TargetPassConfig_ctor_def substitutePass_def disablePass_def)

lemma ctor_fields:
  "PM (TargetPassConfig_ctor tm ps) = ps"
  "TM (TargetPassConfig_ctor tm ps) = tm"
  "\<not> Initialized (TargetPassConfig_ctor tm ps)"
  "Started (TargetPassConfig_ctor tm ps)"
  "\<not> Stopped (TargetPassConfig_ctor tm ps)"
  "StopAfter (TargetPassConfig_ctor tm ps) = None"
  "StartAfter (TargetPassConfig_ctor tm ps) = None"
  "InsertedPasses (TargetPassConfig_ctor tm ps) = []"
  by (simp_all add: TargetPassConfig_ctor_def substitutePass_def disablePass_def)

lemma ctor_TargetPasses:
  "TargetPasses (TargetPassConfig_ctor tm ps)
     = [Some EarlyTailDuplicateID \<mapsto> Some TailDuplicateID,
        Some PostRAMachineLICMID \<mapsto> Some MachineLICMID,
        Some EarlyIfConverterID \<mapsto> None,
        Some MachineSchedulerID \<mapsto> None]"
  by (simp add: TargetPassConfig_ctor_def substitutePass_def disablePass_def)

lemma ctor_plain_gate: "plain_gate (TargetPassConfig_ctor tm ps)"
  by (simp add: plain_gate_def ctor_fields)

lemma ctor_getPassSubstitution:
  "getPassSubstitution (TargetPassConfig_ctor tm ps) X
     = (if X = Some MachineSchedulerID \<or> X = Some EarlyIfConverterID then None
        else if X = Some PostRAMachineLICMID then Some MachineLICMID
        else if X = Some EarlyTailDuplicateID then Some TailDuplicateID
        else X)"
  by (simp add: getPassSubstitution_def ctor_TargetPasses)

lemma ctor_schedulerRuns:
  "schedulerRuns opts (TargetPassConfig_ctor tm ps) \<longleftrightarrow> EnableMachineSched opts = BOU_TRUE"
  by (simp add: schedulerRuns_def ctor_getPassSubstitution)

lemma addOptimizedRegAlloc_ctor:
  assumes "standard_registered PR"
  shows "addOptimizedRegAlloc opts PR RA (TargetPassConfig_ctor tm pm)
           = Inr (TargetPassConfig_ctor tm
                    (pm @ optimizedRegAllocPasses opts tm (EnableMachineSched opts = BOU_TRUE) RA))"
  using addOptimizedRegAlloc_plain [where c = "TargetPassConfig_ctor tm pm" and PR = PR
      and opts = opts and RA = RA and ps = pm, OF ctor_plain_gate _ _ _ assms]
  by (simp add: ctor_getPassSubstitution ctor_schedulerRuns ctor_PM_update ctor_fields)

lemma standard_registered_all: "standard_registered all_registered"
  by (simp add: standard_registered_def all_registered_def)

subsection \<open>The identities on the two paths\<close>

lemma printAndVerifyPasses_ids:
  "getPassID ` set (printAndVerifyPasses opts tm B)
     \<subseteq> {MachineFunctionPrinterPassID, MachineVerifierPassID}"
  by (auto simp add: printAndVerifyPasses_def createMachineFunctionPrinterPass_def
      createMachineVerifierPass_def)

lemma fastRegAllocPasses_ids:
  "getPassID ` set (fastRegAllocPasses opts tm RA)
     \<subseteq> {PHIEliminationID, TwoAddressInstructionPassID, getPassID RA,
         MachineFunctionPrinterPassID, MachineVerifierPassID}"
  using printAndVerifyPasses_ids [of opts tm "''After Register Allocation''"]
  by (auto simp add: fastRegAllocPasses_def)

lemma optimizedRegAllocPasses_coalescer:
  "RegisterCoalescerID \<in> getPassID ` set (optimizedRegAllocPasses opts tm sched RA)"
  by (simp add: optimizedRegAllocPasses_def)

lemma optimizedRegAllocPasses_scheduler:
  assumes "getPassID RA \<noteq> MachineSchedulerID"
  shows "MachineSchedulerID \<in> getPassID ` set (optimizedRegAllocPasses opts tm sched RA)
           \<longleftrightarrow> sched"
proof
  assume "MachineSchedulerID \<in> getPassID ` set (optimizedRegAllocPasses opts tm sched RA)"
  then obtain P where P: "P \<in> set (optimizedRegAllocPasses opts tm sched RA)"
    "getPassID P = MachineSchedulerID"
    by auto
  have pv: "P \<notin> set (printAndVerifyPasses opts tm B)" for B
    using printAndVerifyPasses_ids [of opts tm B] P(2) by auto
  show sched
    using P assms pv by (auto simp add: optimizedRegAllocPasses_def split: if_splits)
next
  assume sched
  then have "MkPass MachineSchedulerID [] \<in> set (optimizedRegAllocPasses opts tm sched RA)"
    by (simp add: optimizedRegAllocPasses_def)
  then show "MachineSchedulerID \<in> getPassID ` set (optimizedRegAllocPasses opts tm sched RA)"
    by force
qed

section \<open>The claims\<close>

subsection \<open>C1: gate windowing\<close>

text \<open>
  Claim C1. In a pipeline configured with StartAfter = \<open>A\<close> and StopAfter = \<open>B\<close> (so that
  the gate has not started and has not stopped), presenting the candidate passes
  \<open>[A, X, B, Y]\<close> to the gate leaves exactly \<open>[X, B]\<close> appended to the output: \<open>A\<close> is the
  start boundary and is dropped, \<open>B\<close> is appended before \<open>Stopped\<close> takes effect, and \<open>Y\<close>
  comes after it. The boundaries are distinct passes (\<open>A \<noteq> B\<close>) and \<open>X\<close> is not the stop
  boundary; nothing else is asked of \<open>X\<close> and \<open>Y\<close>.
\<close>

theorem gate_windowing:
  assumes "StartAfter c = Some A" and "StopAfter c = Some B"
    and "\<not> Started c" and "\<not> Stopped c" and "\<not> Initialized c"
    and "A \<noteq> B" and "X \<noteq> B"
  shows "addPasses [MkPass A a, MkPass X x, MkPass B b, MkPass Y y] c
         = Inr (c\<lparr>PM := PM c @ [MkPass X x, MkPass B b], Started := True, Stopped := True\<rparr>)"
  using assms by (simp add: addPass_P_def Let_def)

text \<open>
  The window PHI elimination .. register coalescing, set by \<open>setStartStopPasses\<close> on a fresh
  configuration.
\<close>

theorem gate_windowing_witness:
  "addPasses [MkPass PHIEliminationID [], MkPass TwoAddressInstructionPassID [],
              MkPass RegisterCoalescerID [], MkPass VirtRegRewriterID []]
     (setStartStopPasses (Some PHIEliminationID) (Some RegisterCoalescerID)
        (TargetPassConfig_ctor tm_default []))
   = Inr ((setStartStopPasses (Some PHIEliminationID) (Some RegisterCoalescerID)
             (TargetPassConfig_ctor tm_default []))
            \<lparr>PM := [MkPass TwoAddressInstructionPassID [], MkPass RegisterCoalescerID []],
             Started := True, Stopped := True\<rparr>)"
  using gate_windowing [where A = PHIEliminationID and B = RegisterCoalescerID
      and X = TwoAddressInstructionPassID and Y = VirtRegRewriterID
      and a = "[]" and x = "[]" and b = "[]" and y = "[]"
      and c = "setStartStopPasses (Some PHIEliminationID) (Some RegisterCoalescerID)
                 (TargetPassConfig_ctor tm_default [])"]
  by (simp add: setStartStopPasses_def ctor_fields)

subsection \<open>C2: the memoized allocator default\<close>

text \<open>
  Claim C2 says that two pipelines built in one process with no explicit allocator get the
  same allocator kind, because the first resolved default is memoized. The code memoizes the
  value of \<^verbatim>\<open>-regalloc\<close>, which with no override is the sentinel factory, and then asks the
  target again at every call (lines 635-639). A first pipeline in optimized mode gets the greedy
  allocator and a second one in fast mode gets the fast allocator.
\<close>

theorem createRegAllocPass_memo_counterexample:
  "RegAlloc default_opts = useDefaultRegisterAllocator
   \<and> createRegAllocPass default_opts True None
       = (MkPass RAGreedyID [], Some useDefaultRegisterAllocator)
   \<and> createRegAllocPass default_opts False (snd (createRegAllocPass default_opts True None))
       = (MkPass RAFastID [], Some useDefaultRegisterAllocator)
   \<and> getPassID (fst (createRegAllocPass default_opts True None))
       \<noteq> getPassID (fst (createRegAllocPass default_opts False
                            (snd (createRegAllocPass default_opts True None))))"
  by (simp add: createRegAllocPass_def default_opts_def createTargetRegisterAllocator_def
      createGreedyRegisterAllocator_def createFastRegisterAllocator_def)

text \<open>
  Claim C2, amended. With no explicit allocator override (\<^verbatim>\<open>-regalloc\<close> is the sentinel,
  and the process-wide default is still null or holds the sentinel), every call returns the
  allocator the target's hook chooses for the mode of that call, and the process-wide default
  holds the sentinel afterwards. So two pipelines get the same allocator kind exactly when the
  hook returns the same kind for their two modes.
\<close>

theorem createRegAllocPass_no_override:
  assumes "RegAlloc opts = useDefaultRegisterAllocator"
    and "D = None \<or> D = Some useDefaultRegisterAllocator"
  shows "createRegAllocPass opts Optimized D
           = (createTargetRegisterAllocator Optimized, Some useDefaultRegisterAllocator)"
  using assms by (auto simp add: createRegAllocPass_def)

theorem createRegAllocPass_no_override_witness:
  "RegAlloc default_opts = useDefaultRegisterAllocator
   \<and> createRegAllocPass default_opts False (Some useDefaultRegisterAllocator)
       = (MkPass RAFastID [], Some useDefaultRegisterAllocator)"
  using createRegAllocPass_no_override [of default_opts "Some useDefaultRegisterAllocator" False]
  by (simp add: default_opts_def createTargetRegisterAllocator_def
      createFastRegisterAllocator_def)

subsection \<open>C3: inserted passes and resolution\<close>

text \<open>
  Claim C3 says that an inserted pass goes through substitution and override resolution and
  can be suppressed by them. The loop of lines 338-347 instantiates the recorded identity and
  calls \<^verbatim>\<open>addPass(Pass*)\<close>, the gate, directly. Below, pass 2 is substituted by the null
  identity: scheduled by itself it yields nothing, and yet it is appended as the extra
  inserted after pass 1.
\<close>

theorem inserted_pass_resolution_counterexample:
  "addPass_ID default_opts all_registered (Some (OtherPassID 2))
     (substitutePass (Some (OtherPassID 2)) None
        ((TargetPassConfig_ctor tm_default [])
           \<lparr>InsertedPasses := [(Some (OtherPassID 1), Some (OtherPassID 2))]\<rparr>))
     = Inr (substitutePass (Some (OtherPassID 2)) None
              ((TargetPassConfig_ctor tm_default [])
                 \<lparr>InsertedPasses := [(Some (OtherPassID 1), Some (OtherPassID 2))]\<rparr>),
            None)
   \<and> addPass_ID default_opts all_registered (Some (OtherPassID 1))
        (substitutePass (Some (OtherPassID 2)) None
           ((TargetPassConfig_ctor tm_default [])
              \<lparr>InsertedPasses := [(Some (OtherPassID 1), Some (OtherPassID 2))]\<rparr>))
       = Inr ((substitutePass (Some (OtherPassID 2)) None
                 ((TargetPassConfig_ctor tm_default [])
                    \<lparr>InsertedPasses := [(Some (OtherPassID 1), Some (OtherPassID 2))]\<rparr>))
                \<lparr>PM := [MkPass (OtherPassID 1) [], MkPass (OtherPassID 2) []]\<rparr>,
              Some (OtherPassID 1))"
  by (simp add: addPass_ID_def getPassSubstitution_def substitutePass_def disablePass_def
      TargetPassConfig_ctor_def overridePass_def createPass_def all_registered_def
      addPass_P_def Let_def)

text \<open>
  Claim C3, amended. Every extra pass scheduled from the insertion list after its anchor is
  instantiated from its recorded identity and goes through the gate only. Whatever the state
  of the gate, scheduling \<open>X\<close> (resolved to a registered \<open>F\<close>) is: present \<open>F\<close> to the
  gate, then present to the gate one pass for each extra recorded for \<open>X\<close>, built under the
  recorded identity itself. The extras are not subject to substitution or override
  resolution: replacing the substitution table and the option values by any others under
  which the anchor still resolves to \<open>F\<close> changes nothing in the outcome (but the table
  carried along), so no entry or flag for an extra can suppress it.
\<close>

theorem inserted_pass_bypasses_resolution:
  assumes "overridePass opts X (getPassSubstitution c X) = Inr (Some F)"
    and "PR F"
    and "\<forall>z \<in> set (insertedAfter X (InsertedPasses c)). \<exists>i. z = Some i \<and> PR i"
  shows "addPass_ID opts PR X c
           = bindE (addPass_P (MkPass F []) c) (\<lambda>c1.
             bindE (addPasses (map (\<lambda>z. MkPass (the z) [])
                                 (insertedAfter X (InsertedPasses c))) c1) (\<lambda>c2.
               Inr (c2, Some F)))
         \<and> (\<forall>opts' tp.
               overridePass opts' X (getPassSubstitution (c\<lparr>TargetPasses := tp\<rparr>) X)
                 = Inr (Some F)
               \<longrightarrow> addPass_ID opts' PR X (c\<lparr>TargetPasses := tp\<rparr>)
                     = bindE (addPass_ID opts PR X c)
                         (\<lambda>r. Inr ((fst r)\<lparr>TargetPasses := tp\<rparr>, snd r)))"
proof -
  let ?extras = "map (\<lambda>z. MkPass (the z) []) (insertedAfter X (InsertedPasses c))"
  have loop: "addInserted PR X (InsertedPasses c) = addPasses ?extras"
    using addInserted_addPasses [OF assms(3)] by (intro ext)
  have shape: "addPass_ID opts' PR X c'
                 = bindE (addPasses (MkPass F [] # ?extras) c') (\<lambda>c2. Inr (c2, Some F))"
    if "overridePass opts' X (getPassSubstitution c' X) = Inr (Some F)"
      and "InsertedPasses c' = InsertedPasses c" for opts' c'
    unfolding addPass_ID_resolved [of opts' X c' F PR, OF that(1) assms(2)]
    using loop that(2) by (cases "addPass_P (MkPass F []) c'") simp_all
  have first: "addPass_ID opts PR X c
           = bindE (addPass_P (MkPass F []) c) (\<lambda>c1.
             bindE (addPasses ?extras c1) (\<lambda>c2. Inr (c2, Some F)))"
    unfolding addPass_ID_resolved [of opts X c F PR, OF assms(1,2)]
    using loop by simp
  have second: "addPass_ID opts' PR X (c\<lparr>TargetPasses := tp\<rparr>)
                  = bindE (addPass_ID opts PR X c)
                      (\<lambda>r. Inr ((fst r)\<lparr>TargetPasses := tp\<rparr>, snd r))"
    if "overridePass opts' X (getPassSubstitution (c\<lparr>TargetPasses := tp\<rparr>) X) = Inr (Some F)"
    for opts' tp
  proof -
    have "addPass_ID opts' PR X (c\<lparr>TargetPasses := tp\<rparr>)
            = bindE (addPasses (MkPass F [] # ?extras) (c\<lparr>TargetPasses := tp\<rparr>))
                (\<lambda>c2. Inr (c2, Some F))"
      using shape [OF that] by simp
    moreover have "addPass_ID opts PR X c
            = bindE (addPasses (MkPass F [] # ?extras) c) (\<lambda>c2. Inr (c2, Some F))"
      using shape [OF assms(1)] by simp
    ultimately show ?thesis
      by (cases "addPasses (MkPass F [] # ?extras) c")
        (simp_all add: addPasses_TargetPasses del: addPasses.simps)
  qed
  show ?thesis
    using first second by blast
qed

text \<open>
  The extra is machine CSE while \<^verbatim>\<open>-disable-machine-cse\<close> is set: scheduled by itself it
  resolves to null; inserted after pass 1 it is appended when the gate is open, and it is
  dropped by the gate when pass 1 is the StopAfter boundary.
\<close>

theorem inserted_pass_bypasses_resolution_witness:
  "overridePass (default_opts\<lparr>DisableMachineCSE := True\<rparr>) (Some MachineCSEID)
       (getPassSubstitution
          ((TargetPassConfig_ctor tm_default [])
             \<lparr>InsertedPasses := [(Some (OtherPassID 1), Some MachineCSEID)]\<rparr>)
          (Some MachineCSEID))
       = Inr None
   \<and> addPass_ID (default_opts\<lparr>DisableMachineCSE := True\<rparr>) all_registered
        (Some (OtherPassID 1))
        ((TargetPassConfig_ctor tm_default [])
           \<lparr>InsertedPasses := [(Some (OtherPassID 1), Some MachineCSEID)]\<rparr>)
       = Inr ((TargetPassConfig_ctor tm_default [])
                \<lparr>InsertedPasses := [(Some (OtherPassID 1), Some MachineCSEID)],
                 PM := [MkPass (OtherPassID 1) [], MkPass MachineCSEID []]\<rparr>,
              Some (OtherPassID 1))
   \<and> addPass_ID (default_opts\<lparr>DisableMachineCSE := True\<rparr>) all_registered
        (Some (OtherPassID 1))
        (setStartStopPasses None (Some (OtherPassID 1))
           ((TargetPassConfig_ctor tm_default [])
              \<lparr>InsertedPasses := [(Some (OtherPassID 1), Some MachineCSEID)]\<rparr>))
       = Inr ((setStartStopPasses None (Some (OtherPassID 1))
                 ((TargetPassConfig_ctor tm_default [])
                    \<lparr>InsertedPasses := [(Some (OtherPassID 1), Some MachineCSEID)]\<rparr>))
                \<lparr>PM := [MkPass (OtherPassID 1) []], Stopped := True\<rparr>,
              Some (OtherPassID 1))"
proof -
  let ?opts = "default_opts\<lparr>DisableMachineCSE := True\<rparr>"
  let ?c = "(TargetPassConfig_ctor tm_default [])
              \<lparr>InsertedPasses := [(Some (OtherPassID 1), Some MachineCSEID)]\<rparr>"
  let ?d = "setStartStopPasses None (Some (OtherPassID 1)) ?c"
  have suppressed: "overridePass ?opts (Some MachineCSEID)
                      (getPassSubstitution ?c (Some MachineCSEID)) = Inr None"
    by (simp add: overridePass_def applyDisable_def)
  have resolved: "overridePass ?opts (Some (OtherPassID 1))
                    (getPassSubstitution c' (Some (OtherPassID 1))) = Inr (Some (OtherPassID 1))"
    if "TargetPasses c' (Some (OtherPassID 1)) = None" for c' :: TargetPassConfig
    using that by (simp add: overridePass_def getPassSubstitution_def)
  have tp: "TargetPasses ?c (Some (OtherPassID 1)) = None"
    "TargetPasses ?d (Some (OtherPassID 1)) = None"
    by (simp_all add: ctor_TargetPasses setStartStopPasses_def)
  have anchor: "all_registered (OtherPassID 1)"
    by (simp add: all_registered_def)
  have extras: "\<forall>z \<in> set (insertedAfter (Some (OtherPassID 1)) (InsertedPasses c')).
                  \<exists>i. z = Some i \<and> all_registered i"
    if "InsertedPasses c' = [(Some (OtherPassID 1), Some MachineCSEID)]"
    for c' :: TargetPassConfig
    using that by (simp add: insertedAfter_def all_registered_def)
  have ins: "InsertedPasses ?c = [(Some (OtherPassID 1), Some MachineCSEID)]"
    "InsertedPasses ?d = [(Some (OtherPassID 1), Some MachineCSEID)]"
    by (simp_all add: setStartStopPasses_def)
  have open_gate: "addPass_ID ?opts all_registered (Some (OtherPassID 1)) ?c
                     = Inr (?c\<lparr>PM := [MkPass (OtherPassID 1) [], MkPass MachineCSEID []]\<rparr>,
                            Some (OtherPassID 1))"
    using inserted_pass_bypasses_resolution [OF resolved [OF tp(1)] anchor extras [OF ins(1)],
        THEN conjunct1]
    by (simp add: insertedAfter_def addPass_P_def Let_def ctor_fields)
  have stopping: "addPass_ID ?opts all_registered (Some (OtherPassID 1)) ?d
                     = Inr (?d\<lparr>PM := [MkPass (OtherPassID 1) []], Stopped := True\<rparr>,
                            Some (OtherPassID 1))"
    using inserted_pass_bypasses_resolution [OF resolved [OF tp(2)] anchor extras [OF ins(2)],
        THEN conjunct1]
    by (simp add: insertedAfter_def addPass_P_def Let_def ctor_fields setStartStopPasses_def)
  show ?thesis
    using suppressed open_gate stopping by simp
qed

subsection \<open>C4: the invalid window\<close>

text \<open>
  Claim C4. Presenting a pass to the gate fails with the fatal error "Cannot stop compilation
  after pass that is not run" exactly when, after the two boundary checks of that call,
  \<open>Stopped\<close> holds and \<open>Started\<close> does not: the gate had stopped or this pass is the StopAfter
  boundary, and the gate had not started and this pass is not the StartAfter boundary. (The
  configuration must still be mutable, or else the assertion of line 307 fails first.)
\<close>

theorem addPass_P_stop_before_start:
  "addPass_P P c = Inl CannotStopAfterPassNotRun \<longleftrightarrow>
     \<not> Initialized c
     \<and> (Stopped c \<or> StopAfter c = Some (getPassID P))
     \<and> \<not> (Started c \<or> StartAfter c = Some (getPassID P))"
  by (auto simp add: addPass_P_def Let_def)

text \<open>
  The sequence of C1 with the boundaries exchanged: StartAfter is register coalescing and
  StopAfter is PHI elimination, and the first pass presented is PHI elimination.
\<close>

theorem addPass_P_stop_before_start_witness:
  "addPass_P (MkPass PHIEliminationID [])
     (setStartStopPasses (Some RegisterCoalescerID) (Some PHIEliminationID)
        (TargetPassConfig_ctor tm_default []))
   = Inl CannotStopAfterPassNotRun"
  using addPass_P_stop_before_start [of "MkPass PHIEliminationID []"
      "setStartStopPasses (Some RegisterCoalescerID) (Some PHIEliminationID)
         (TargetPassConfig_ctor tm_default [])"]
  by (simp add: setStartStopPasses_def TargetPassConfig_ctor_def substitutePass_def
      disablePass_def)

subsection \<open>C5: substitution by null\<close>

text \<open>
  Claim C5. If the substitution table maps the standard identity \<open>X\<close> to null and no
  override rule re-enables it, scheduling \<open>X\<close> returns null and leaves the whole configuration
  as it was: nothing is appended and the insertion list is not consulted. The only rule that
  can turn a null substitute into a pass is the tri-state rule of the machine scheduler with
  its flag forced true, so every identity without an override rule is covered.
\<close>

theorem addPass_ID_substituted_null:
  assumes "TargetPasses c X = Some None"
    and "X \<noteq> Some MachineSchedulerID \<or> EnableMachineSched opts \<noteq> BOU_TRUE"
  shows "addPass_ID opts PR X c = Inr (c, None)"
  using assms
  by (auto simp add: addPass_ID_def getPassSubstitution_def overridePass_def applyDisable_def
      applyOverride_def split: boolOrDefault.splits)

theorem addPass_ID_substituted_null_witness:
  "TargetPasses
     (substitutePass (Some (OtherPassID 1)) None
        ((TargetPassConfig_ctor tm_default [])
           \<lparr>InsertedPasses := [(Some (OtherPassID 1), Some (OtherPassID 2))]\<rparr>))
     (Some (OtherPassID 1)) = Some None
   \<and> Some (OtherPassID 1) \<noteq> Some MachineSchedulerID
   \<and> addPass_ID default_opts all_registered (Some (OtherPassID 1))
        (substitutePass (Some (OtherPassID 1)) None
           ((TargetPassConfig_ctor tm_default [])
              \<lparr>InsertedPasses := [(Some (OtherPassID 1), Some (OtherPassID 2))]\<rparr>))
       = Inr (substitutePass (Some (OtherPassID 1)) None
                ((TargetPassConfig_ctor tm_default [])
                   \<lparr>InsertedPasses := [(Some (OtherPassID 1), Some (OtherPassID 2))]\<rparr>),
              None)"
  using addPass_ID_substituted_null [of
      "substitutePass (Some (OtherPassID 1)) None
         ((TargetPassConfig_ctor tm_default [])
            \<lparr>InsertedPasses := [(Some (OtherPassID 1), Some (OtherPassID 2))]\<rparr>)"
      "Some (OtherPassID 1)" default_opts all_registered]
  by (simp add: substitutePass_def)

subsection \<open>C6: disable-if-true rules\<close>

text \<open>
  Claim C6. \<open>applyDisable\<close> returns null when its flag is true, whatever the substituted
  identity, and returns the substituted identity unchanged when the flag is false; and for
  each of the fourteen identities bound to a disable rule, \<open>overridePass\<close> is \<open>applyDisable\<close>
  on the substituted identity and the bound flag. (For early if-conversion the flag handed to
  \<open>applyDisable\<close> is the negation of \<^verbatim>\<open>-enable-early-ifcvt\<close>, line 178.)
\<close>

theorem overridePass_disable_if_true:
  "applyDisable T True = None
   \<and> applyDisable T False = T
   \<and> overridePass opts (Some PostRASchedulerID) T = Inr (applyDisable T (DisablePostRA opts))
   \<and> overridePass opts (Some BranchFolderPassID) T = Inr (applyDisable T (DisableBranchFold opts))
   \<and> overridePass opts (Some TailDuplicateID) T = Inr (applyDisable T (DisableTailDuplicate opts))
   \<and> overridePass opts (Some EarlyTailDuplicateID) T = Inr (applyDisable T (DisableEarlyTailDup opts))
   \<and> overridePass opts (Some MachineBlockPlacementID) T = Inr (applyDisable T (DisableCodePlace opts))
   \<and> overridePass opts (Some CodePlacementOptID) T = Inr (applyDisable T (DisableCodePlace opts))
   \<and> overridePass opts (Some StackSlotColoringID) T = Inr (applyDisable T (DisableSSC opts))
   \<and> overridePass opts (Some DeadMachineInstructionElimID) T
       = Inr (applyDisable T (DisableMachineDCE opts))
   \<and> overridePass opts (Some EarlyIfConverterID) T
       = Inr (applyDisable T (\<not> EnableEarlyIfConversion opts))
   \<and> overridePass opts (Some MachineLICMID) T = Inr (applyDisable T (DisableMachineLICM opts))
   \<and> overridePass opts (Some MachineCSEID) T = Inr (applyDisable T (DisableMachineCSE opts))
   \<and> overridePass opts (Some PostRAMachineLICMID) T
       = Inr (applyDisable T (DisablePostRAMachineLICM opts))
   \<and> overridePass opts (Some MachineSinkingID) T = Inr (applyDisable T (DisableMachineSink opts))
   \<and> overridePass opts (Some MachineCopyPropagationID) T
       = Inr (applyDisable T (DisableCopyProp opts))"
  by (simp add: applyDisable_def overridePass_def)

subsection \<open>C7: the tri-state rule\<close>

text \<open>
  Claim C7. \<open>applyOverride\<close>: with the flag unset the substituted identity passes through;
  with the flag true the substituted identity is used when it is non-null, else the standard
  identity when that is non-null, else the fatal error "Target cannot enable pass"; with the
  flag false the result is null. The machine scheduler is the identity bound to this rule.
\<close>

theorem applyOverride_tri_state:
  "applyOverride T BOU_UNSET S = Inr T
   \<and> applyOverride (Some t) BOU_TRUE S = Inr (Some t)
   \<and> applyOverride None BOU_TRUE (Some s) = Inr (Some s)
   \<and> applyOverride None BOU_TRUE None = Inl TargetCannotEnablePass
   \<and> applyOverride T BOU_FALSE S = Inr None
   \<and> overridePass opts (Some MachineSchedulerID) T
       = applyOverride T (EnableMachineSched opts) (Some MachineSchedulerID)"
  by (simp add: applyOverride_def overridePass_def)

subsection \<open>C8: insertion fidelity\<close>

text \<open>
  Claim C8. After \<open>insertPass X Z\<close>, scheduling the standard identity \<open>X\<close>, which
  resolves to \<open>X'\<close> (a substitute, or \<open>X\<close> itself), appends \<open>X'\<close> and immediately after it
  \<open>Z\<close>: the anchor is matched against the standard identity. The setting is the one the
  property speaks of: \<open>Z\<close> is the only extra recorded for \<open>X\<close>, both passes are registered,
  the gate is open and \<open>X'\<close> is not the stop boundary.
\<close>

theorem insertion_fidelity:
  assumes "X \<noteq> Some z"
    and "overridePass opts X (getPassSubstitution c X) = Inr (Some X')"
    and "PR X'" and "PR z"
    and "insertedAfter X (InsertedPasses c) = []"
    and "\<not> Initialized c" and "Started c" and "\<not> Stopped c" and "StopAfter c \<noteq> Some X'"
  shows "insertPass X (Some z) c
           = Inr (c\<lparr>InsertedPasses := InsertedPasses c @ [(X, Some z)]\<rparr>)
         \<and> addPass_ID opts PR X (c\<lparr>InsertedPasses := InsertedPasses c @ [(X, Some z)]\<rparr>)
           = Inr (c\<lparr>InsertedPasses := InsertedPasses c @ [(X, Some z)],
                     PM := PM c @ [MkPass X' [], MkPass z []],
                     Stopped := (StopAfter c = Some z)\<rparr>,
                  Some X')"
proof -
  let ?c1 = "c\<lparr>InsertedPasses := InsertedPasses c @ [(X, Some z)]\<rparr>"
  let ?c2 = "?c1\<lparr>PM := PM ?c1 @ [MkPass X' []]\<rparr>"
  have ins: "insertPass X (Some z) c = Inr ?c1"
    using assms(1) by (simp add: insertPass_def)
  have res: "overridePass opts X (getPassSubstitution ?c1 X) = Inr (Some X')"
    using assms(2) by (simp add: getPassSubstitution_def)
  have anchor: "addPass_P (MkPass X' []) ?c1 = Inr ?c2"
    using assms(6-9) by (intro addPass_P_open) auto
  have extras: "insertedAfter X (InsertedPasses ?c1) = [Some z]"
    using assms(5) by (simp add: insertedAfter_def)
  have "\<forall>y \<in> set (insertedAfter X (InsertedPasses ?c1)). \<exists>i. y = Some i \<and> PR i"
    using assms(4) extras by simp
  from addInserted_addPasses [OF this, of ?c2]
  have loop: "addInserted PR X (InsertedPasses ?c1) ?c2 = addPass_P (MkPass z []) ?c2"
    using extras by (cases "addPass_P (MkPass z []) ?c2") simp_all
  have extra: "addPass_P (MkPass z []) ?c2
                 = Inr (?c2\<lparr>PM := PM ?c2 @ [MkPass z []], Stopped := (StopAfter c = Some z)\<rparr>)"
    using assms(6-8) by (simp add: addPass_P_def Let_def)
  show ?thesis
    using ins anchor loop extra
    by (simp add: addPass_ID_resolved [of opts X ?c1 X' PR, OF res assms(3)])
qed

text \<open>
  Early tail duplication is a pseudo identity that the constructor substitutes by tail
  duplication; pass 5 inserted after the pseudo identity follows tail duplication.
\<close>

theorem insertion_fidelity_witness:
  "insertPass (Some EarlyTailDuplicateID) (Some (OtherPassID 5)) (TargetPassConfig_ctor tm_default [])
     = Inr ((TargetPassConfig_ctor tm_default [])
              \<lparr>InsertedPasses := [(Some EarlyTailDuplicateID, Some (OtherPassID 5))]\<rparr>)
   \<and> getPassSubstitution (TargetPassConfig_ctor tm_default []) (Some EarlyTailDuplicateID)
       = Some TailDuplicateID
   \<and> addPass_ID default_opts all_registered (Some EarlyTailDuplicateID)
        ((TargetPassConfig_ctor tm_default [])
           \<lparr>InsertedPasses := [(Some EarlyTailDuplicateID, Some (OtherPassID 5))]\<rparr>)
       = Inr ((TargetPassConfig_ctor tm_default [])
                \<lparr>InsertedPasses := [(Some EarlyTailDuplicateID, Some (OtherPassID 5))],
                 PM := [MkPass TailDuplicateID [], MkPass (OtherPassID 5) []]\<rparr>,
              Some TailDuplicateID)"
  using insertion_fidelity [of "Some EarlyTailDuplicateID" "OtherPassID 5" default_opts
      "TargetPassConfig_ctor tm_default []" TailDuplicateID all_registered]
  by (simp add: overridePass_def getPassSubstitution_def ctor_TargetPasses ctor_fields
      all_registered_def insertedAfter_def applyDisable_def default_opts_def)

subsection \<open>C9: the two register-allocation paths\<close>

text \<open>
  Claim C9 says that the optimized path contains register coalescing and pre-allocation
  scheduling unless a flag suppresses them. The constructor substitutes the machine scheduler
  by null (line 258), so with every option at its default and optimization level Default the
  optimized path is taken and holds no scheduling pass.
\<close>

theorem optimized_path_scheduling_counterexample:
  "OptLevel tm_default = CGO_Default
   \<and> getOptimizeRegAlloc default_opts (TargetPassConfig_ctor tm_default [])
   \<and> addMachinePasses_RegAlloc default_opts all_registered None
        (TargetPassConfig_ctor tm_default [])
       = Inr (TargetPassConfig_ctor tm_default
                [MkPass ProcessImplicitDefsID [], MkPass LiveVariablesID [],
                 MkPass MachineLoopInfoID [], MkPass PHIEliminationID [],
                 MkPass TwoAddressInstructionPassID [], MkPass RegisterCoalescerID [],
                 MkPass RAGreedyID [], MkPass VirtRegRewriterID [],
                 MkPass StackSlotColoringID [], MkPass MachineLICMID []],
              Some useDefaultRegisterAllocator)
   \<and> MachineSchedulerID
       \<notin> set (map getPassID
                [MkPass ProcessImplicitDefsID [], MkPass LiveVariablesID [],
                 MkPass MachineLoopInfoID [], MkPass PHIEliminationID [],
                 MkPass TwoAddressInstructionPassID [], MkPass RegisterCoalescerID [],
                 MkPass RAGreedyID [], MkPass VirtRegRewriterID [],
                 MkPass StackSlotColoringID [], MkPass MachineLICMID []])"
proof -
  have mode: "getOptimizeRegAlloc default_opts (TargetPassConfig_ctor tm_default [])"
    by (simp add: getOptimizeRegAlloc_def default_opts_def ctor_fields tm_default_def)
  have alloc: "createRegAllocPass default_opts True None
                 = (MkPass RAGreedyID [], Some useDefaultRegisterAllocator)"
    by (simp add: createRegAllocPass_def default_opts_def createTargetRegisterAllocator_def
        createGreedyRegisterAllocator_def)
  have path: "optimizedRegAllocPasses default_opts tm_default
                (EnableMachineSched default_opts = BOU_TRUE) (MkPass RAGreedyID [])
                = [MkPass ProcessImplicitDefsID [], MkPass LiveVariablesID [],
                   MkPass MachineLoopInfoID [], MkPass PHIEliminationID [],
                   MkPass TwoAddressInstructionPassID [], MkPass RegisterCoalescerID [],
                   MkPass RAGreedyID [], MkPass VirtRegRewriterID [],
                   MkPass StackSlotColoringID [], MkPass MachineLICMID []]"
    by (simp add: optimizedRegAllocPasses_def printAndVerifyPasses_def default_opts_def
        tm_default_def)
  show ?thesis
    using mode alloc path
      addOptimizedRegAlloc_ctor [OF standard_registered_all, of default_opts
        "MkPass RAGreedyID []" tm_default "[]"]
    by (simp add: addMachinePasses_RegAlloc_def tm_default_def)
qed

text \<open>
  Claim C9, amended. Take a pipeline whose gate is open with no stop boundary, with no
  insertion, whose target has left the substitutions of the passes of the two paths as the
  constructor made them, except possibly the machine scheduler's (null from the constructor, or
  the scheduler itself when the target has put it back), with the standard passes registered
  and a selected allocator that is itself neither of the two passes. With
  \<^verbatim>\<open>-optimize-regalloc\<close> unset the mode is optimized exactly when the optimization level is
  not None. When the mode resolves to fast, the register-allocation step appends PHI
  elimination, two-address lowering, then the selected allocator (followed only by the
  print/verify instrumentation), and no register coalescing or machine scheduling pass. When
  the mode resolves to optimized, the step appends a path that contains register coalescing,
  and that contains the machine scheduler exactly when \<^verbatim>\<open>-enable-misched\<close> is forced true,
  or is unset while the target has put the scheduler back in place of the constructor's null.
\<close>

theorem regalloc_paths:
  assumes "\<not> Initialized c" and "Started c" and "\<not> Stopped c" and "StopAfter c = None"
    and "InsertedPasses c = []"
    and "list_all (\<lambda>i. getPassSubstitution c (Some i) = Some i)
           [PHIEliminationID, TwoAddressInstructionPassID, ProcessImplicitDefsID,
            LiveVariablesID, MachineLoopInfoID, LiveIntervalsID, StrongPHIEliminationID,
            RegisterCoalescerID, VirtRegRewriterID, StackSlotColoringID]"
    and "getPassSubstitution c (Some PostRAMachineLICMID) = Some MachineLICMID"
    and "getPassSubstitution c (Some MachineSchedulerID) = None
         \<or> getPassSubstitution c (Some MachineSchedulerID) = Some MachineSchedulerID"
    and "standard_registered PR"
    and "getPassID (fst (createRegAllocPass opts (getOptimizeRegAlloc opts c) D))
           \<noteq> RegisterCoalescerID"
    and "getPassID (fst (createRegAllocPass opts (getOptimizeRegAlloc opts c) D))
           \<noteq> MachineSchedulerID"
  shows "(OptimizeRegAlloc opts = BOU_UNSET
            \<longrightarrow> getOptimizeRegAlloc opts c = (OptLevel (TM c) \<noteq> CGO_None))
         \<and> (\<not> getOptimizeRegAlloc opts c \<longrightarrow>
               addMachinePasses_RegAlloc opts PR D c
                 = Inr (c\<lparr>PM := PM c @ fastRegAllocPasses opts (TM c)
                                        (fst (createRegAllocPass opts False D))\<rparr>,
                        snd (createRegAllocPass opts False D))
               \<and> RegisterCoalescerID
                   \<notin> getPassID ` set (fastRegAllocPasses opts (TM c)
                                        (fst (createRegAllocPass opts False D)))
               \<and> MachineSchedulerID
                   \<notin> getPassID ` set (fastRegAllocPasses opts (TM c)
                                        (fst (createRegAllocPass opts False D))))
         \<and> (getOptimizeRegAlloc opts c \<longrightarrow>
               addMachinePasses_RegAlloc opts PR D c
                 = Inr (c\<lparr>PM := PM c @ optimizedRegAllocPasses opts (TM c)
                                        (schedulerRuns opts c)
                                        (fst (createRegAllocPass opts True D))\<rparr>,
                        snd (createRegAllocPass opts True D))
               \<and> RegisterCoalescerID
                   \<in> getPassID ` set (optimizedRegAllocPasses opts (TM c)
                                        (schedulerRuns opts c)
                                        (fst (createRegAllocPass opts True D)))
               \<and> (MachineSchedulerID
                     \<in> getPassID ` set (optimizedRegAllocPasses opts (TM c)
                                          (schedulerRuns opts c)
                                          (fst (createRegAllocPass opts True D)))
                    \<longleftrightarrow> EnableMachineSched opts = BOU_TRUE
                         \<or> (EnableMachineSched opts = BOU_UNSET
                             \<and> getPassSubstitution c (Some MachineSchedulerID)
                                 = Some MachineSchedulerID)))"
proof -
  have plain: "plain_gate c"
    using assms(1-5) by (simp add: plain_gate_def)
  have mode: "OptimizeRegAlloc opts = BOU_UNSET
                \<longrightarrow> getOptimizeRegAlloc opts c = (OptLevel (TM c) \<noteq> CGO_None)"
    by (simp add: getOptimizeRegAlloc_def)
  have reg: "PR PHIEliminationID" "PR TwoAddressInstructionPassID"
    using assms(9) by (simp_all add: standard_registered_def)
  have sub: "getPassSubstitution c (Some PHIEliminationID) = Some PHIEliminationID"
    "getPassSubstitution c (Some TwoAddressInstructionPassID) = Some TwoAddressInstructionPassID"
    using assms(6) by simp_all
  have fast: "addFastRegAlloc opts PR RA c = Inr (c\<lparr>PM := PM c @ fastRegAllocPasses opts (TM c) RA\<rparr>)"
    for RA
    using addFastRegAlloc_plain [where PR = PR and opts = opts and RA = RA and ps = "PM c",
        OF plain sub reg]
    by simp
  have optimized: "addOptimizedRegAlloc opts PR RA c
           = Inr (c\<lparr>PM := PM c @ optimizedRegAllocPasses opts (TM c) (schedulerRuns opts c) RA\<rparr>)"
    for RA
    using addOptimizedRegAlloc_plain [where PR = PR and opts = opts and RA = RA and ps = "PM c",
        OF plain assms(6-9)]
    by simp
  show ?thesis
  proof (cases "getOptimizeRegAlloc opts c")
    case True
    let ?RA = "fst (createRegAllocPass opts True D)"
    have ra: "getPassID ?RA \<noteq> MachineSchedulerID"
      using assms(11) True by simp
    show ?thesis
      using True mode optimized [of ?RA] optimizedRegAllocPasses_coalescer
        optimizedRegAllocPasses_scheduler [OF ra, of opts "TM c" "schedulerRuns opts c"]
      by (simp add: addMachinePasses_RegAlloc_def Let_def schedulerRuns_def)
  next
    case False
    let ?RA = "fst (createRegAllocPass opts False D)"
    have ra: "getPassID ?RA \<noteq> RegisterCoalescerID" "getPassID ?RA \<noteq> MachineSchedulerID"
      using assms(10,11) False by simp_all
    have ids: "RegisterCoalescerID \<notin> getPassID ` set (fastRegAllocPasses opts (TM c) ?RA)"
      "MachineSchedulerID \<notin> getPassID ` set (fastRegAllocPasses opts (TM c) ?RA)"
      using fastRegAllocPasses_ids [of opts "TM c" ?RA] ra by auto
    show ?thesis
      using False mode fast [of ?RA] ids
      by (simp add: addMachinePasses_RegAlloc_def Let_def)
  qed
qed

text \<open>
  With every option at its default: at level None the step appends the fast path; at level
  Default, for a target that has substituted the scheduler back, the optimized path with the
  scheduler.
\<close>

theorem regalloc_paths_witness:
  "addMachinePasses_RegAlloc default_opts all_registered None
     (TargetPassConfig_ctor tm_unoptimized [])
     = Inr (TargetPassConfig_ctor tm_unoptimized
              [MkPass PHIEliminationID [], MkPass TwoAddressInstructionPassID [],
               MkPass RAFastID []],
            Some useDefaultRegisterAllocator)
   \<and> addMachinePasses_RegAlloc default_opts all_registered None
        (substitutePass (Some MachineSchedulerID) (Some MachineSchedulerID)
           (TargetPassConfig_ctor tm_default []))
       = Inr ((substitutePass (Some MachineSchedulerID) (Some MachineSchedulerID)
                 (TargetPassConfig_ctor tm_default []))
                \<lparr>PM := [MkPass ProcessImplicitDefsID [], MkPass LiveVariablesID [],
                        MkPass MachineLoopInfoID [], MkPass PHIEliminationID [],
                        MkPass TwoAddressInstructionPassID [], MkPass RegisterCoalescerID [],
                        MkPass MachineSchedulerID [], MkPass RAGreedyID [],
                        MkPass VirtRegRewriterID [], MkPass StackSlotColoringID [],
                        MkPass MachineLICMID []]\<rparr>,
              Some useDefaultRegisterAllocator)"
proof -
  let ?c1 = "TargetPassConfig_ctor tm_unoptimized []"
  let ?c2 = "substitutePass (Some MachineSchedulerID) (Some MachineSchedulerID)
               (TargetPassConfig_ctor tm_default [])"
  have alloc: "createRegAllocPass default_opts b None
                 = (MkPass (if b then RAGreedyID else RAFastID) [],
                    Some useDefaultRegisterAllocator)" for b
    by (simp add: createRegAllocPass_def default_opts_def createTargetRegisterAllocator_def
        createGreedyRegisterAllocator_def createFastRegisterAllocator_def)
  have mode1: "\<not> getOptimizeRegAlloc default_opts ?c1"
    by (simp add: getOptimizeRegAlloc_def default_opts_def ctor_fields tm_unoptimized_def)
  have mode2: "getOptimizeRegAlloc default_opts ?c2"
    by (simp add: getOptimizeRegAlloc_def default_opts_def ctor_fields tm_default_def
        substitutePass_def)
  have sub2: "getPassSubstitution ?c2 X
                = (if X = Some MachineSchedulerID then Some MachineSchedulerID
                   else getPassSubstitution (TargetPassConfig_ctor tm_default []) X)" for X
    by (simp add: getPassSubstitution_def substitutePass_def)
  have gate1: "\<not> Initialized ?c1" "Started ?c1" "\<not> Stopped ?c1" "StopAfter ?c1 = None"
    "InsertedPasses ?c1 = []"
    by (simp_all add: ctor_fields)
  have gate2: "\<not> Initialized ?c2" "Started ?c2" "\<not> Stopped ?c2" "StopAfter ?c2 = None"
    "InsertedPasses ?c2 = []"
    by (simp_all add: ctor_fields substitutePass_def)
  have ra: "getPassID (fst (createRegAllocPass default_opts b None)) \<noteq> RegisterCoalescerID"
    "getPassID (fst (createRegAllocPass default_opts b None)) \<noteq> MachineSchedulerID" for b
    by (simp_all add: alloc)
  have fast: "addMachinePasses_RegAlloc default_opts all_registered None ?c1
                = Inr (?c1\<lparr>PM := PM ?c1 @ fastRegAllocPasses default_opts (TM ?c1)
                                         (fst (createRegAllocPass default_opts False None))\<rparr>,
                       snd (createRegAllocPass default_opts False None))"
    using mode1
      regalloc_paths [where c = ?c1 and opts = default_opts and PR = all_registered
        and D = None, OF gate1 _ _ _ standard_registered_all ra]
    by (simp add: ctor_getPassSubstitution)
  have optimized: "addMachinePasses_RegAlloc default_opts all_registered None ?c2
                = Inr (?c2\<lparr>PM := PM ?c2 @ optimizedRegAllocPasses default_opts (TM ?c2)
                                         (schedulerRuns default_opts ?c2)
                                         (fst (createRegAllocPass default_opts True None))\<rparr>,
                       snd (createRegAllocPass default_opts True None))"
    using mode2
      regalloc_paths [where c = ?c2 and opts = default_opts and PR = all_registered
        and D = None, OF gate2 _ _ _ standard_registered_all ra]
    by (simp add: sub2 ctor_getPassSubstitution)
  have runs: "schedulerRuns default_opts ?c2"
    by (simp add: schedulerRuns_def sub2 default_opts_def)
  have fields: "TM ?c1 = tm_unoptimized" "PM ?c1 = []" "TM ?c2 = tm_default" "PM ?c2 = []"
    by (simp_all add: ctor_fields substitutePass_def)
  have fastpath: "fastRegAllocPasses default_opts tm_unoptimized (MkPass RAFastID [])
                    = [MkPass PHIEliminationID [], MkPass TwoAddressInstructionPassID [],
                       MkPass RAFastID []]"
    by (simp add: fastRegAllocPasses_def printAndVerifyPasses_def default_opts_def
        tm_unoptimized_def)
  have optpath: "optimizedRegAllocPasses default_opts tm_default True (MkPass RAGreedyID [])
                   = [MkPass ProcessImplicitDefsID [], MkPass LiveVariablesID [],
                      MkPass MachineLoopInfoID [], MkPass PHIEliminationID [],
                      MkPass TwoAddressInstructionPassID [], MkPass RegisterCoalescerID [],
                      MkPass MachineSchedulerID [], MkPass RAGreedyID [],
                      MkPass VirtRegRewriterID [], MkPass StackSlotColoringID [],
                      MkPass MachineLICMID []]"
    by (simp add: optimizedRegAllocPasses_def printAndVerifyPasses_def default_opts_def
        tm_default_def)
  show ?thesis
    using fast optimized
    by (simp add: runs fields alloc fastpath optpath ctor_PM_update)
qed

subsection \<open>C10: insertions fire whatever the gate did with the anchor\<close>

text \<open>
  Claim C10. When the scheduled identity \<open>X\<close> resolves to a non-null \<open>F\<close>, scheduling it
  is the same as presenting to the gate, in order, the pass \<open>F\<close> and then one pass for each
  extra recorded for \<open>X\<close>, whether or not the gate appended \<open>F\<close>; and for every pass the gate
  accepts, the pass is appended exactly when \<open>Started\<close> held and \<open>Stopped\<close> did not.
\<close>

theorem inserted_pass_fires_when_anchor_dropped:
  assumes "overridePass opts X (getPassSubstitution c X) = Inr (Some F)"
    and "PR F"
    and "\<forall>z \<in> set (insertedAfter X (InsertedPasses c)). \<exists>i. z = Some i \<and> PR i"
  shows "addPass_ID opts PR X c
           = bindE (addPasses (MkPass F []
                      # map (\<lambda>z. MkPass (the z) []) (insertedAfter X (InsertedPasses c))) c)
               (\<lambda>c2. Inr (c2, Some F))
         \<and> (\<forall>P c0 c1. addPass_P P c0 = Inr c1
               \<longrightarrow> PM c1 = (if Started c0 \<and> \<not> Stopped c0 then PM c0 @ [P] else PM c0))"
proof -
  have "addPass_ID opts PR X c
           = bindE (addPasses (MkPass F []
                      # map (\<lambda>z. MkPass (the z) []) (insertedAfter X (InsertedPasses c))) c)
               (\<lambda>c2. Inr (c2, Some F))"
    unfolding addPass_ID_resolved [of opts X c F PR, OF assms(1,2)]
    using addInserted_addPasses [OF assms(3)]
    by (cases "addPass_P (MkPass F []) c") simp_all
  then show ?thesis
    using addPass_P_PM by blast
qed

text \<open>
  The anchor is the StartAfter boundary: the gate drops it, starts, and appends the extra.
\<close>

theorem inserted_pass_fires_when_anchor_dropped_witness:
  "\<not> Started (setStartStopPasses (Some (OtherPassID 1)) None
       ((TargetPassConfig_ctor tm_default [])
          \<lparr>InsertedPasses := [(Some (OtherPassID 1), Some (OtherPassID 2))]\<rparr>))
   \<and> addPass_ID default_opts all_registered (Some (OtherPassID 1))
        (setStartStopPasses (Some (OtherPassID 1)) None
           ((TargetPassConfig_ctor tm_default [])
              \<lparr>InsertedPasses := [(Some (OtherPassID 1), Some (OtherPassID 2))]\<rparr>))
       = Inr ((setStartStopPasses (Some (OtherPassID 1)) None
                 ((TargetPassConfig_ctor tm_default [])
                    \<lparr>InsertedPasses := [(Some (OtherPassID 1), Some (OtherPassID 2))]\<rparr>))
                \<lparr>PM := [MkPass (OtherPassID 2) []], Started := True\<rparr>,
              Some (OtherPassID 1))"
proof -
  let ?c = "setStartStopPasses (Some (OtherPassID 1)) None
              ((TargetPassConfig_ctor tm_default [])
                 \<lparr>InsertedPasses := [(Some (OtherPassID 1), Some (OtherPassID 2))]\<rparr>)"
  have resolved: "overridePass default_opts (Some (OtherPassID 1))
                    (getPassSubstitution ?c (Some (OtherPassID 1)))
                  = Inr (Some (OtherPassID 1))"
    by (simp add: overridePass_def getPassSubstitution_def setStartStopPasses_def
        ctor_TargetPasses)
  have anchor: "all_registered (OtherPassID 1)"
    by (simp add: all_registered_def)
  have extras: "\<forall>z \<in> set (insertedAfter (Some (OtherPassID 1)) (InsertedPasses ?c)).
                  \<exists>i. z = Some i \<and> all_registered i"
    by (simp add: insertedAfter_def setStartStopPasses_def all_registered_def)
  have fires: "addPass_ID default_opts all_registered (Some (OtherPassID 1)) ?c
                 = bindE (addPasses [MkPass (OtherPassID 1) [], MkPass (OtherPassID 2) []] ?c)
                     (\<lambda>c2. Inr (c2, Some (OtherPassID 1)))"
    using inserted_pass_fires_when_anchor_dropped [OF resolved anchor extras, THEN conjunct1]
    by (simp add: insertedAfter_def setStartStopPasses_def)
  have gate: "addPasses [MkPass (OtherPassID 1) [], MkPass (OtherPassID 2) []] ?c
                = Inr (?c\<lparr>PM := [MkPass (OtherPassID 2) []], Started := True\<rparr>)"
    by (simp add: addPass_P_def Let_def setStartStopPasses_def ctor_fields)
  show ?thesis
    using fires gate by (simp add: setStartStopPasses_def)
qed

end
